theory Spec2Isabelle
  imports Main
begin

section \<open>Shared types\<close>

text \<open>
  The identity record of \<^verbatim>\<open>src/types/index.ts\<close>. The field \<^verbatim>\<open>id\<close> is written
  \<open>id'\<close> (HOL's \<open>id\<close> is the identity function); the two optional server
  timestamps are options.
\<close>

record User =
  id' :: string
  email :: string
  name :: string
  createdAt :: "string option"
  updatedAt :: "string option"

datatype AuthResponse =
  AuthResponse (response_user: User) (response_token: string)

datatype LoginCredentials =
  LoginCredentials (login_email: string) (login_password: string)

datatype SignupData =
  SignupData (signup_name: string) (signup_email: string) (signup_password: string)

section \<open>Session State and the browser environment\<close>

text \<open>
  The data fields of \<^verbatim>\<open>AuthState\<close> (\<^verbatim>\<open>store/auth.store.ts\<close>); \<^verbatim>\<open>null\<close> is
  \<open>None\<close>. The two actions are the functions \<open>setAuth\<close> and \<open>logout\<close> below.
\<close>

record AuthState =
  user :: "User option"
  token :: "string option"
  isAuthenticated :: bool

text \<open>
  What \<^verbatim>\<open>localStorage\<close> holds under a key: a string. The string that the store's
  \<^verbatim>\<open>persist\<close> middleware writes is the JSON text of
  \<^verbatim>\<open>{state: {user, token, isAuthenticated}, version: 0}\<close>; it is kept as the
  document it encodes (\<open>Doc\<close>), every other string as \<open>Text\<close>.
\<close>

datatype item = Text string | Doc AuthState

text \<open>
  \<^verbatim>\<open>window\<close>, as far as the code uses it: \<^verbatim>\<open>localStorage\<close> and
  \<^verbatim>\<open>window.location.href\<close>.
\<close>

record Window =
  localStorage :: "string \<rightharpoonup> item"
  location_href :: string

definition getItem :: "Window \<Rightarrow> string \<Rightarrow> item option" where
  "getItem win k = localStorage win k"

definition setItem :: "Window \<Rightarrow> string \<Rightarrow> item \<Rightarrow> Window" where
  "setItem win k v = win\<lparr>localStorage := (localStorage win)(k \<mapsto> v)\<rparr>"

definition removeItem :: "Window \<Rightarrow> string \<Rightarrow> Window" where
  "removeItem win k = win\<lparr>localStorage := (localStorage win)(k := None)\<rparr>"

subsection \<open>The text of a stored item\<close>

text \<open>
  \<^verbatim>\<open>getItem\<close> hands JavaScript a string. For a \<open>Doc\<close> that is the text
  \<^verbatim>\<open>JSON.stringify\<close> produced: members in the order of \<^verbatim>\<open>partialize\<close>,
  \<^verbatim>\<open>undefined\<close> members left out, strings quoted and escaped.
\<close>

definition hex_digit :: "nat \<Rightarrow> char" where
  "hex_digit n = ''0123456789abcdef'' ! (n mod 16)"

definition json_char :: "char \<Rightarrow> string" where
  "json_char c =
     (if c = CHR 0x22 then [CHR 0x5C, CHR 0x22]
      else if c = CHR 0x5C then [CHR 0x5C, CHR 0x5C]
      else if c = CHR 0x08 then [CHR 0x5C, CHR ''b'']
      else if c = CHR 0x09 then [CHR 0x5C, CHR ''t'']
      else if c = CHR 0x0A then [CHR 0x5C, CHR ''n'']
      else if c = CHR 0x0C then [CHR 0x5C, CHR ''f'']
      else if c = CHR 0x0D then [CHR 0x5C, CHR ''r'']
      else if (of_char c :: nat) < 32
        then [CHR 0x5C, CHR ''u'', CHR ''0'', CHR ''0'',
              hex_digit (of_char c div 16), hex_digit (of_char c)]
      else [c])"

definition json_string :: "string \<Rightarrow> string" where
  "json_string s = CHR 0x22 # concat (map json_char s) @ [CHR 0x22]"

definition json_member :: "string \<Rightarrow> string \<Rightarrow> string" where
  "json_member k v = json_string k @ '':'' @ v"

definition json_optional :: "string \<Rightarrow> string option \<Rightarrow> string" where
  "json_optional k v =
     (case v of None \<Rightarrow> [] | Some s \<Rightarrow> '','' @ json_member k (json_string s))"

definition json_user :: "User option \<Rightarrow> string" where
  "json_user u =
     (case u of
        None \<Rightarrow> ''null''
      | Some x \<Rightarrow>
          ''{'' @ json_member ''id'' (json_string (id' x))
          @ '','' @ json_member ''email'' (json_string (email x))
          @ '','' @ json_member ''name'' (json_string (name x))
          @ json_optional ''createdAt'' (createdAt x)
          @ json_optional ''updatedAt'' (updatedAt x) @ ''}'')"

definition json_token :: "string option \<Rightarrow> string" where
  "json_token t = (case t of None \<Rightarrow> ''null'' | Some s \<Rightarrow> json_string s)"

definition JSON_stringify :: "AuthState \<Rightarrow> string" where
  "JSON_stringify s =
     ''{'' @ json_member ''state''
       (''{'' @ json_member ''user'' (json_user (user s))
        @ '','' @ json_member ''token'' (json_token (token s))
        @ '','' @ json_member ''isAuthenticated''
            (if isAuthenticated s then ''true'' else ''false'') @ ''}'')
     @ '','' @ json_member ''version'' ''0'' @ ''}''"

fun item_text :: "item \<Rightarrow> string" where
  "item_text (Text s) = s"
| "item_text (Doc d) = JSON_stringify d"

subsection \<open>The Server-Data Cache and the world\<close>

text \<open>
  The \<^verbatim>\<open>QueryClient\<close>: its cache, keyed by query key, and a count of the calls
  of \<^verbatim>\<open>clear()\<close> it has received.
\<close>

record QueryClient =
  queryCache :: "string list \<rightharpoonup> string"
  clearCalls :: nat

definition clear :: "QueryClient \<Rightarrow> QueryClient" where
  "clear q = \<lparr>queryCache = Map.empty, clearCalls = Suc (clearCalls q)\<rparr>"

datatype payload = NoData | LoginBody LoginCredentials | SignupBody SignupData

text \<open>An axios request configuration, and a response with its parsed body.\<close>

record Config =
  baseURL :: string
  url :: string
  method' :: string
  headers :: "string \<rightharpoonup> string"
  body :: payload

record 'd Response =
  status :: int
  data :: 'd

text \<open>
  An \<^verbatim>\<open>AxiosError\<close>: either the request got no response, or it got one whose
  status axios rejects. \<open>error_status\<close> is \<^verbatim>\<open>error.response?.status\<close>.
\<close>

datatype 'd AxiosError = NetworkError string | StatusError "'d Response"

fun error_status :: "'d AxiosError \<Rightarrow> int option" where
  "error_status (NetworkError m) = None"
| "error_status (StatusError r) = Some (status r)"

text \<open>
  The whole client: \<^verbatim>\<open>window\<close> (\<open>None\<close> where \<^verbatim>\<open>typeof window\<close> is
  \<^verbatim>\<open>"undefined"\<close>, as on the server), the environment variable the client reads,
  the state of \<^verbatim>\<open>useAuthStore\<close>, the query client, and the requests handed to the
  network so far.
\<close>

record World =
  window :: "Window option"
  NEXT_PUBLIC_API_URL :: string
  useAuthStore :: AuthState
  queryClient :: QueryClient
  sent :: "Config list"

definition isBrowser :: "World \<Rightarrow> bool" where
  "isBrowser w \<longleftrightarrow> window w \<noteq> None"

section \<open>The auth store\<close>

text \<open>
  \<^verbatim>\<open>persist\<close> with \<^verbatim>\<open>name: "auth-storage"\<close>: every \<^verbatim>\<open>set\<close> (here
  \<open>set_state\<close>, HOL's \<open>set\<close> being taken) updates the state and then writes
  \<^verbatim>\<open>partialize(state)\<close> under that key; where there is no storage the middleware
  only updates the state. The guard \<^verbatim>\<open>typeof window !== "undefined"\<close> of the two
  actions is the case distinction on \<open>window\<close>.
\<close>

definition partialize :: "AuthState \<Rightarrow> AuthState" where
  "partialize state =
     \<lparr>user = user state, token = token state, isAuthenticated = isAuthenticated state\<rparr>"

definition set_state :: "AuthState \<Rightarrow> World \<Rightarrow> World" where
  "set_state s w =
     (case window w of
        None \<Rightarrow> w\<lparr>useAuthStore := s\<rparr>
      | Some win \<Rightarrow>
          w\<lparr>useAuthStore := s,
            window := Some (setItem win ''auth-storage'' (Doc (partialize s)))\<rparr>)"

definition initialState :: AuthState where
  "initialState = \<lparr>user = None, token = None, isAuthenticated = False\<rparr>"

definition setAuth :: "User \<Rightarrow> string \<Rightarrow> World \<Rightarrow> World" where
  "setAuth u t w =
     set_state \<lparr>user = Some u, token = Some t, isAuthenticated = True\<rparr>
       (case window w of
          None \<Rightarrow> w
        | Some win \<Rightarrow> w\<lparr>window := Some (setItem win ''auth_token'' (Text t))\<rparr>)"

definition logout :: "World \<Rightarrow> World" where
  "logout w =
     set_state \<lparr>user = None, token = None, isAuthenticated = False\<rparr>
       (case window w of
          None \<Rightarrow> w
        | Some win \<Rightarrow> w\<lparr>window := Some (removeItem win ''auth_token'')\<rparr>)"

text \<open>
  Creating the store on a page load: the initial state, over which the middleware
  lays the document found under \<^verbatim>\<open>"auth-storage"\<close>, if there is one. A string
  under that key that is no such document (a \<open>Text\<close>) is taken to restore nothing.
\<close>

definition rehydrate :: "World \<Rightarrow> World" where
  "rehydrate w =
     w\<lparr>useAuthStore :=
         (case window w of
            None \<Rightarrow> initialState
          | Some win \<Rightarrow>
              (case getItem win ''auth-storage'' of
                 Some (Doc d) \<Rightarrow> d
               | _ \<Rightarrow> initialState))\<rparr>"

text \<open>The token a reader of the durable Credential Store finds.\<close>

definition stored_token :: "World \<Rightarrow> item option" where
  "stored_token w =
     (case window w of None \<Rightarrow> None | Some win \<Rightarrow> getItem win ''auth_token'')"

text \<open>The entry the \<^verbatim>\<open>persist\<close> middleware keeps, and the whole of durable storage
  (empty where there is none).\<close>

definition persisted :: "World \<Rightarrow> item option" where
  "persisted w =
     (case window w of None \<Rightarrow> None | Some win \<Rightarrow> getItem win ''auth-storage'')"

definition durable :: "World \<Rightarrow> string \<rightharpoonup> item" where
  "durable w = (case window w of None \<Rightarrow> Map.empty | Some win \<Rightarrow> localStorage win)"

section \<open>Sequences of store operations\<close>

datatype op = SetAuth User string | Logout

fun apply_op :: "op \<Rightarrow> World \<Rightarrow> World" where
  "apply_op (SetAuth u t) w = setAuth u t w"
| "apply_op Logout w = logout w"

text \<open>The worlds after each operation of a sequence, in order.\<close>

fun trace :: "op list \<Rightarrow> World \<Rightarrow> World list" where
  "trace [] w = []"
| "trace (x # xs) w = apply_op x w # trace xs (apply_op x w)"

definition consistent :: "AuthState \<Rightarrow> bool" where
  "consistent s \<longleftrightarrow> (isAuthenticated s \<longleftrightarrow> (user s \<noteq> None \<and> token s \<noteq> None))"

section \<open>The HTTP Gateway\<close>

text \<open>
  The instance \<^verbatim>\<open>api\<close> of \<^verbatim>\<open>lib/api/client.ts\<close>: the configuration of a
  \<^verbatim>\<open>post\<close> is the instance's defaults with the call's path and body.
\<close>

definition api_config :: "World \<Rightarrow> string \<Rightarrow> payload \<Rightarrow> Config" where
  "api_config w path b =
     \<lparr>baseURL = NEXT_PUBLIC_API_URL w, url = path, method' = ''post'',
      headers = [''Content-Type'' \<mapsto> ''application/json''], body = b\<rparr>"

text \<open>
  The request interceptor. \<^verbatim>\<open>if (token)\<close> is JavaScript's truthiness: the key is
  there and its string is not empty.
\<close>

definition request_interceptor :: "World \<Rightarrow> Config \<Rightarrow> Config" where
  "request_interceptor w config =
     (case window w of
        None \<Rightarrow> config
      | Some win \<Rightarrow>
          (case getItem win ''auth_token'' of
             None \<Rightarrow> config
           | Some it \<Rightarrow>
               if item_text it \<noteq> []
               then config\<lparr>headers :=
                      (headers config)(''Authorization'' \<mapsto> ''Bearer '' @ item_text it)\<rparr>
               else config))"

text \<open>
  What the network does with a request, and how axios settles it: a response whose
  status passes \<^verbatim>\<open>validateStatus\<close> (the default, 2xx) fulfils the call, any other
  rejects it with an error that carries the response.
\<close>

datatype 'd wire = Unreachable string | Answered "'d Response"

definition validateStatus :: "int \<Rightarrow> bool" where
  "validateStatus s \<longleftrightarrow> 200 \<le> s \<and> s < 300"

fun settle :: "'d wire \<Rightarrow> 'd AxiosError + 'd Response" where
  "settle (Unreachable m) = Inl (NetworkError m)"
| "settle (Answered r) = (if validateStatus (status r) then Inr r else Inl (StatusError r))"

text \<open>
  The response interceptor's two handlers. The second returns
  \<^verbatim>\<open>Promise.reject(error)\<close>: the error it was given, with the world it leaves.
\<close>

definition response_fulfilled :: "'d Response \<Rightarrow> 'd Response" where
  "response_fulfilled response = response"

definition response_rejected :: "'d AxiosError \<Rightarrow> World \<Rightarrow> 'd AxiosError \<times> World" where
  "response_rejected error w =
     (case window w of
        None \<Rightarrow> (error, w)
      | Some win \<Rightarrow>
          if error_status error = Some 401
          then (error,
                w\<lparr>window := Some ((removeItem win ''auth_token'')\<lparr>location_href := ''/login''\<rparr>)\<rparr>)
          else (error, w))"

text \<open>\<^verbatim>\<open>api.post(path, body)\<close> over a network \<open>net\<close>.\<close>

definition api_post ::
  "(Config \<Rightarrow> 'd wire) \<Rightarrow> string \<Rightarrow> payload \<Rightarrow> World \<Rightarrow> ('d AxiosError + 'd Response) \<times> World"
where
  "api_post net path b w =
     (let config = request_interceptor w (api_config w path b);
          w1 = w\<lparr>sent := sent w @ [config]\<rparr>
      in case settle (net config) of
           Inr response \<Rightarrow> (Inr (response_fulfilled response), w1)
         | Inl error \<Rightarrow> (case response_rejected error w1 of (e, w2) \<Rightarrow> (Inl e, w2)))"

section \<open>Auth Operations\<close>

text \<open>
  Modelled from the spec: the query client's default options for mutations are set in
  \<^verbatim>\<open>src/app/providers.tsx\<close>, which is not among the sources; the hooks themselves
  pass no \<^verbatim>\<open>retry\<close> option. The spec says that no retry is attempted
  automatically (which is also the library's default for mutations).
\<close>

definition mutations_retry :: nat where
  "mutations_retry = 0"

text \<open>Running a mutation function with up to \<open>n\<close> retries after a failure.\<close>

fun execute :: "nat \<Rightarrow> (World \<Rightarrow> ('e + 'a) \<times> World) \<Rightarrow> World \<Rightarrow> ('e + 'a) \<times> World" where
  "execute 0 fn w = fn w"
| "execute (Suc n) fn w =
     (case fn w of
        (Inr a, w') \<Rightarrow> (Inr a, w')
      | (Inl e, w') \<Rightarrow> execute n fn w')"

text \<open>
  \<^verbatim>\<open>useMutation({mutationFn, onSuccess, onError}).mutateAsync(variables)\<close>: the
  function runs, then the callback of its outcome; the caller gets the data or the
  error.
\<close>

definition useMutation ::
  "('v \<Rightarrow> World \<Rightarrow> ('e + 'a) \<times> World) \<Rightarrow> ('a \<Rightarrow> World \<Rightarrow> World) \<Rightarrow> ('e \<Rightarrow> World \<Rightarrow> World)
     \<Rightarrow> 'v \<Rightarrow> World \<Rightarrow> ('e + 'a) \<times> World"
where
  "useMutation mutationFn onSuccess onError variables w =
     (case execute mutations_retry (mutationFn variables) w of
        (Inr d, w') \<Rightarrow> (Inr d, onSuccess d w')
      | (Inl e, w') \<Rightarrow> (Inl e, onError e w'))"

text \<open>\<^verbatim>\<open>const { data } = await api.post(...); return data\<close>.\<close>

definition post_data ::
  "(Config \<Rightarrow> 'd wire) \<Rightarrow> string \<Rightarrow> payload \<Rightarrow> World \<Rightarrow> ('d AxiosError + 'd) \<times> World"
where
  "post_data net path b w =
     (case api_post net path b w of
        (Inr response, w') \<Rightarrow> (Inr (data response), w')
      | (Inl e, w') \<Rightarrow> (Inl e, w'))"

definition useLogin ::
  "(Config \<Rightarrow> AuthResponse wire) \<Rightarrow> LoginCredentials \<Rightarrow> World
     \<Rightarrow> (AuthResponse AxiosError + AuthResponse) \<times> World"
where
  "useLogin net =
     useMutation
       (\<lambda>credentials. post_data net ''/auth/login'' (LoginBody credentials))
       (\<lambda>d. setAuth (response_user d) (response_token d))
       (\<lambda>e w. w)"

definition useSignup ::
  "(Config \<Rightarrow> AuthResponse wire) \<Rightarrow> SignupData \<Rightarrow> World
     \<Rightarrow> (AuthResponse AxiosError + AuthResponse) \<times> World"
where
  "useSignup net =
     useMutation
       (\<lambda>signupData. post_data net ''/auth/signup'' (SignupBody signupData))
       (\<lambda>d. setAuth (response_user d) (response_token d))
       (\<lambda>e w. w)"

text \<open>\<^verbatim>\<open>logout(); queryClient.clear()\<close>, the body of both callbacks of the logout hook.\<close>

definition clear_local_state :: "World \<Rightarrow> World" where
  "clear_local_state w = (let w1 = logout w in w1\<lparr>queryClient := clear (queryClient w1)\<rparr>)"

definition useLogout ::
  "(Config \<Rightarrow> 'd wire) \<Rightarrow> unit \<Rightarrow> World \<Rightarrow> ('d AxiosError + unit) \<times> World"
where
  "useLogout net =
     useMutation
       (\<lambda>_ w. case api_post net ''/auth/logout'' NoData w of
                 (Inr response, w') \<Rightarrow> (Inr (), w')
               | (Inl e, w') \<Rightarrow> (Inl e, w'))
       (\<lambda>_. clear_local_state)
       (\<lambda>_. clear_local_state)"

section \<open>Scenarios\<close>

text \<open>
  Concrete worlds and networks: a browser with a signed-in session whose token is
  \<^verbatim>\<open>"abc"\<close> and two cached queries, a browser nobody has signed in to, and a
  server-side rendering context; a network that answers every request with a given
  status and body, and one that cannot be reached.
\<close>

definition alice :: User where
  "alice = \<lparr>id' = ''1'', email = ''a@b.com'', name = ''A'', createdAt = None, updatedAt = None\<rparr>"

definition signed_in :: AuthState where
  "signed_in = \<lparr>user = Some alice, token = Some ''abc'', isAuthenticated = True\<rparr>"

definition two_queries :: QueryClient where
  "two_queries =
     \<lparr>queryCache = [[''users''] \<mapsto> ''u'', [''users'', ''42'', ''posts''] \<mapsto> ''p''],
      clearCalls = 0\<rparr>"

definition browser_abc :: World where
  "browser_abc =
     \<lparr>window = Some \<lparr>localStorage =
                        [''auth_token'' \<mapsto> Text ''abc'', ''auth-storage'' \<mapsto> Doc signed_in],
                      location_href = ''/dashboard''\<rparr>,
      NEXT_PUBLIC_API_URL = ''https://api.example.com'',
      useAuthStore = signed_in,
      queryClient = two_queries,
      sent = []\<rparr>"

definition browser_fresh :: World where
  "browser_fresh =
     \<lparr>window = Some \<lparr>localStorage = Map.empty, location_href = ''/login''\<rparr>,
      NEXT_PUBLIC_API_URL = ''https://api.example.com'',
      useAuthStore = initialState,
      queryClient = two_queries,
      sent = []\<rparr>"

definition server_side :: World where
  "server_side =
     \<lparr>window = None,
      NEXT_PUBLIC_API_URL = ''https://api.example.com'',
      useAuthStore = initialState,
      queryClient = \<lparr>queryCache = Map.empty, clearCalls = 0\<rparr>,
      sent = []\<rparr>"

definition answers :: "int \<Rightarrow> 'd \<Rightarrow> Config \<Rightarrow> 'd wire" where
  "answers s d config = Answered \<lparr>status = s, data = d\<rparr>"

definition offline :: "Config \<Rightarrow> 'd wire" where
  "offline config = Unreachable ''Network Error''"

section \<open>Facts about the store\<close>

lemma setAuth_store:
  "useAuthStore (setAuth u t w) = \<lparr>user = Some u, token = Some t, isAuthenticated = True\<rparr>"
  by (simp add: setAuth_def set_state_def split: option.split)

lemma setAuth_stored_token:
  "stored_token (setAuth u t w) = (if isBrowser w then Some (Text t) else None)"
  by (simp add: setAuth_def set_state_def stored_token_def isBrowser_def setItem_def getItem_def
      split: option.split)

lemma setAuth_queryClient: "queryClient (setAuth u t w) = queryClient w"
  by (simp add: setAuth_def set_state_def split: option.split)

lemma logout_store:
  "useAuthStore (logout w) = \<lparr>user = None, token = None, isAuthenticated = False\<rparr>"
  by (simp add: logout_def set_state_def split: option.split)

lemma logout_stored_token: "stored_token (logout w) = None"
  by (simp add: logout_def set_state_def stored_token_def setItem_def getItem_def removeItem_def
      split: option.split)

lemma logout_persisted:
  "persisted (logout w) =
     (if isBrowser w
      then Some (Doc \<lparr>user = None, token = None, isAuthenticated = False\<rparr>) else None)"
  by (simp add: logout_def set_state_def persisted_def isBrowser_def setItem_def getItem_def
      partialize_def split: option.split)

lemma logout_queryClient: "queryClient (logout w) = queryClient w"
  by (simp add: logout_def set_state_def split: option.split)

lemma logout_twice: "logout (logout w) = logout w"
  by (cases "window w") (simp_all add: logout_def set_state_def setItem_def removeItem_def)

lemma apply_op_consistent: "consistent (useAuthStore (apply_op x w))"
  by (cases x) (simp_all add: consistent_def setAuth_store logout_store)

lemma trace_consistent: "\<forall>w' \<in> set (trace ops w). consistent (useAuthStore w')"
  by (induction ops arbitrary: w) (simp_all add: apply_op_consistent)

section \<open>Facts about the gateway and the hooks\<close>

text \<open>A call of the gateway never touches the store, the query client or the
  persisted snapshot, and hands the network exactly one request.\<close>

lemma api_post_frame:
  "useAuthStore (snd (api_post net path b w)) = useAuthStore w
   \<and> queryClient (snd (api_post net path b w)) = queryClient w
   \<and> persisted (snd (api_post net path b w)) = persisted w
   \<and> sent (snd (api_post net path b w)) = sent w @ [request_interceptor w (api_config w path b)]"
  by (simp add: api_post_def response_rejected_def persisted_def removeItem_def getItem_def Let_def
      split: sum.split option.split prod.split)

lemma api_post_fulfilled:
  assumes "net (request_interceptor w (api_config w path b)) = Answered r"
    and "validateStatus (status r)"
  shows "api_post net path b w =
    (Inr r, w\<lparr>sent := sent w @ [request_interceptor w (api_config w path b)]\<rparr>)"
  using assms by (simp add: api_post_def response_fulfilled_def Let_def)

lemma api_post_rejected:
  assumes "settle (net (request_interceptor w (api_config w path b))) = Inl e"
  shows "fst (api_post net path b w) = Inl e"
  using assms by (simp add: api_post_def response_rejected_def Let_def split: option.split)

lemma post_data_fulfilled:
  assumes "net (request_interceptor w (api_config w path b)) = Answered r"
    and "validateStatus (status r)"
  shows "post_data net path b w =
    (Inr (data r), w\<lparr>sent := sent w @ [request_interceptor w (api_config w path b)]\<rparr>)"
  using assms api_post_fulfilled [where net = net and w = w and r = r and path = path and b = b]
  by (simp add: post_data_def)

lemma post_data_rejected:
  assumes "settle (net (request_interceptor w (api_config w path b))) = Inl e"
  shows "fst (post_data net path b w) = Inl e
    \<and> useAuthStore (snd (post_data net path b w)) = useAuthStore w
    \<and> persisted (snd (post_data net path b w)) = persisted w
    \<and> sent (snd (post_data net path b w)) = sent w @ [request_interceptor w (api_config w path b)]"
  using assms api_post_rejected [where net = net and w = w and e = e and path = path and b = b]
    api_post_frame [of net path b w]
  by (auto simp add: post_data_def split: prod.split sum.split)

lemma useLogout_world:
  "snd (useLogout net () w) = clear_local_state (snd (api_post net ''/auth/logout'' NoData w))"
  by (simp add: useLogout_def useMutation_def mutations_retry_def split: prod.split sum.split)

lemma useLogout_result:
  "fst (useLogout net () w)
     = (case settle (net (request_interceptor w (api_config w ''/auth/logout'' NoData))) of
          Inl e \<Rightarrow> Inl e | Inr r \<Rightarrow> Inr ())"
  by (simp add: useLogout_def useMutation_def mutations_retry_def api_post_def
      response_rejected_def Let_def split: prod.split sum.split option.split)

section \<open>The claims\<close>

subsection \<open>C1: the forced logout\<close>

text \<open>
  C1. The claim: on every request answered with 401 in a browser, the response
  interceptor clears the token from durable storage, leaves Session State with
  \<open>isAuthenticated = False\<close>, navigates to the login path, and still rejects with the
  original error. The code at a signed-in session with token \<^verbatim>\<open>"abc"\<close>: the request
  is rejected with the original error, the token key is removed and the location is
  \<^verbatim>\<open>/login\<close>, but the store still reads \<open>isAuthenticated = True\<close> with token
  \<^verbatim>\<open>"abc"\<close>, and the persisted snapshot still holds that session. The interceptor
  never calls the store.
\<close>

theorem forced_logout_leaves_store_authenticated:
  "fst (api_post (answers 401 ()) ''/users'' NoData browser_abc)
     = Inl (StatusError \<lparr>status = 401, data = ()\<rparr>)
   \<and> stored_token (snd (api_post (answers 401 ()) ''/users'' NoData browser_abc)) = None
   \<and> map_option location_href (window (snd (api_post (answers 401 ()) ''/users'' NoData browser_abc)))
       = Some ''/login''
   \<and> isAuthenticated (useAuthStore (snd (api_post (answers 401 ()) ''/users'' NoData browser_abc)))
   \<and> token (useAuthStore (snd (api_post (answers 401 ()) ''/users'' NoData browser_abc)))
       = Some ''abc''
   \<and> persisted (snd (api_post (answers 401 ()) ''/users'' NoData browser_abc))
       = Some (Doc signed_in)"
  by (simp add: api_post_def response_rejected_def answers_def browser_abc_def validateStatus_def
      stored_token_def persisted_def getItem_def removeItem_def signed_in_def Let_def)

subsection \<open>C2: the invariant of Session State\<close>

text \<open>
  C2. Starting from the initial all-absent state, in the starting state and after
  each operation of any sequence of \<open>setAuth\<close> and \<open>logout\<close> calls,
  \<open>isAuthenticated\<close> is true if and only if both \<open>user\<close> and \<open>token\<close> are
  present. (Each operation writes all three fields, so this holds for every user
  record and token string, in a browser and without one.)
\<close>

theorem isAuthenticated_iff_user_and_token:
  assumes "useAuthStore w = initialState"
  shows "\<forall>w' \<in> set (w # trace ops w). consistent (useAuthStore w')"
  using assms trace_consistent [of ops w] by (simp add: consistent_def initialState_def)

theorem isAuthenticated_iff_user_and_token_witness:
  "useAuthStore browser_fresh = initialState
   \<and> consistent (useAuthStore browser_fresh)
   \<and> consistent (useAuthStore (setAuth alice ''xyz'' browser_fresh))
   \<and> consistent (useAuthStore (logout (setAuth alice ''xyz'' browser_fresh)))"
proof -
  have start: "useAuthStore browser_fresh = initialState"
    by (simp add: browser_fresh_def)
  from isAuthenticated_iff_user_and_token [OF start, of "[SetAuth alice ''xyz'', Logout]"] start
  show ?thesis by simp
qed

subsection \<open>C6: what setAuth leaves\<close>

text \<open>
  C6. After \<open>setAuth u t\<close> the store reads \<open>user = u\<close>, \<open>token = t\<close> and
  \<open>isAuthenticated = True\<close>, and in a browser durable storage holds \<open>t\<close> under the
  token key (without a browser there is no storage to read).
\<close>

theorem setAuth_then_read:
  "user (useAuthStore (setAuth u t w)) = Some u
   \<and> token (useAuthStore (setAuth u t w)) = Some t
   \<and> isAuthenticated (useAuthStore (setAuth u t w))
   \<and> stored_token (setAuth u t w) = (if isBrowser w then Some (Text t) else None)"
  by (simp add: setAuth_store setAuth_stored_token)

subsection \<open>C7: logout is idempotent\<close>

text \<open>
  C7. Calling \<open>logout\<close> twice leaves the same world as calling it once (the store's
  fields, durable storage and everything else), and after \<open>logout\<close> a read of the
  token key of the durable Credential Store finds nothing.
\<close>

theorem logout_idempotent:
  "logout (logout w) = logout w \<and> stored_token (logout w) = None"
  by (simp add: logout_twice logout_stored_token)

subsection \<open>C8: the request interceptor\<close>

text \<open>
  C8. The pre-send hook: when the Credential Store holds a token (a non-empty string
  under the token key), the request leaves with that token as its bearer
  authorization header; when the key is absent the request leaves as the caller
  configured it; and without a browser (no durable storage) it also leaves as
  configured, the hook returning the configuration and no error. The request the
  network receives is the hook's result. (An empty string under the key is falsy in
  JavaScript and counts as no token: the request leaves as configured.)
\<close>

theorem request_interceptor_bearer:
  "(stored_token w = Some it \<and> item_text it \<noteq> [] \<longrightarrow>
      request_interceptor w config =
        config\<lparr>headers := (headers config)(''Authorization'' \<mapsto> ''Bearer '' @ item_text it)\<rparr>)
   \<and> (isBrowser w \<and> stored_token w = None \<longrightarrow> request_interceptor w config = config)
   \<and> (isBrowser w \<and> stored_token w = Some (Text []) \<longrightarrow> request_interceptor w config = config)
   \<and> (\<not> isBrowser w \<longrightarrow> request_interceptor w config = config)
   \<and> sent (snd (api_post net path b w)) = sent w @ [request_interceptor w (api_config w path b)]"
  using api_post_frame [of net path b w]
  by (auto simp add: request_interceptor_def stored_token_def isBrowser_def
      split: option.splits)

theorem request_interceptor_bearer_witness:
  "stored_token browser_abc = Some (Text ''abc'') \<and> item_text (Text ''abc'') \<noteq> []
   \<and> request_interceptor browser_abc (api_config browser_abc ''/users'' NoData)
       = (api_config browser_abc ''/users'' NoData)
           \<lparr>headers := [''Content-Type'' \<mapsto> ''application/json'',
                        ''Authorization'' \<mapsto> ''Bearer abc'']\<rparr>
   \<and> isBrowser browser_fresh \<and> stored_token browser_fresh = None
   \<and> request_interceptor browser_fresh (api_config browser_fresh ''/users'' NoData)
       = api_config browser_fresh ''/users'' NoData
   \<and> \<not> isBrowser server_side
   \<and> request_interceptor server_side (api_config server_side ''/users'' NoData)
       = api_config server_side ''/users'' NoData
   \<and> headers (api_config server_side ''/users'' NoData) ''Authorization'' = None"
proof -
  have abc: "stored_token browser_abc = Some (Text ''abc'') \<and> item_text (Text ''abc'') \<noteq> []"
    by (simp add: stored_token_def browser_abc_def getItem_def)
  have fresh: "isBrowser browser_fresh \<and> stored_token browser_fresh = None"
    by (simp add: stored_token_def isBrowser_def browser_fresh_def getItem_def)
  have server: "\<not> isBrowser server_side"
    by (simp add: isBrowser_def server_side_def)
  have hdr: "headers (api_config w ''/users'' NoData) = [''Content-Type'' \<mapsto> ''application/json'']"
    for w by (simp add: api_config_def)
  from abc
    request_interceptor_bearer [of browser_abc "Text ''abc''"
      "api_config browser_abc ''/users'' NoData" offline "''/users''" NoData]
  have 1: "request_interceptor browser_abc (api_config browser_abc ''/users'' NoData)
       = (api_config browser_abc ''/users'' NoData)
           \<lparr>headers := [''Content-Type'' \<mapsto> ''application/json'',
                        ''Authorization'' \<mapsto> ''Bearer abc'']\<rparr>"
    by (auto simp add: hdr)
  from fresh
    request_interceptor_bearer [of browser_fresh "Text ''abc''"
      "api_config browser_fresh ''/users'' NoData" offline "''/users''" NoData]
  have 2: "request_interceptor browser_fresh (api_config browser_fresh ''/users'' NoData)
       = api_config browser_fresh ''/users'' NoData"
    by auto
  from server
    request_interceptor_bearer [of server_side "Text ''abc''"
      "api_config server_side ''/users'' NoData" offline "''/users''" NoData]
  have 3: "request_interceptor server_side (api_config server_side ''/users'' NoData)
       = api_config server_side ''/users'' NoData"
    by auto
  have 4: "headers (api_config server_side ''/users'' NoData) ''Authorization'' = None"
    by (simp add: hdr)
  from abc fresh server 1 2 3 4 show ?thesis by blast
qed

subsection \<open>C10: what the forced logout leaves in durable storage\<close>

text \<open>
  C10. For every request answered with 401 in a browser, the gateway removes the
  token key from durable storage and nothing else: every other key, and so the
  snapshot persisted under \<^verbatim>\<open>"auth-storage"\<close>, is as it was. A store created
  from durable storage afterwards therefore takes its state from that snapshot, an
  authenticated one if the snapshot was.
\<close>

theorem forced_logout_keeps_snapshot:
  assumes "isBrowser w"
    and "net (request_interceptor w (api_config w path b)) = Answered r"
    and "status r = 401"
  shows "durable (snd (api_post net path b w)) = (durable w)(''auth_token'' := None)
    \<and> persisted (snd (api_post net path b w)) = persisted w
    \<and> (\<forall>d. persisted w = Some (Doc d) \<longrightarrow>
          useAuthStore (rehydrate (snd (api_post net path b w))) = d)"
  using assms
  by (auto simp add: api_post_def response_rejected_def validateStatus_def isBrowser_def
      durable_def persisted_def rehydrate_def removeItem_def getItem_def Let_def)

theorem forced_logout_keeps_snapshot_witness:
  "isBrowser browser_abc
   \<and> answers 401 () (request_interceptor browser_abc (api_config browser_abc ''/users'' NoData))
       = Answered \<lparr>status = 401, data = ()\<rparr>
   \<and> persisted browser_abc = Some (Doc signed_in)
   \<and> persisted (snd (api_post (answers 401 ()) ''/users'' NoData browser_abc)) = Some (Doc signed_in)
   \<and> durable (snd (api_post (answers 401 ()) ''/users'' NoData browser_abc)) ''auth_token'' = None
   \<and> isAuthenticated
        (useAuthStore (rehydrate (snd (api_post (answers 401 ()) ''/users'' NoData browser_abc))))"
proof -
  have browser: "isBrowser browser_abc"
    by (simp add: isBrowser_def browser_abc_def)
  have answer: "answers 401 () (request_interceptor browser_abc (api_config browser_abc ''/users'' NoData))
       = Answered \<lparr>status = 401, data = ()\<rparr>"
    by (simp add: answers_def)
  have snapshot: "persisted browser_abc = Some (Doc signed_in)"
    by (simp add: persisted_def browser_abc_def getItem_def)
  from snapshot answer browser
    forced_logout_keeps_snapshot [where w = browser_abc and net = "answers 401 ()"
      and path = "''/users''" and b = NoData and r = "\<lparr>status = 401, data = ()\<rparr>"]
  have "durable (snd (api_post (answers 401 ()) ''/users'' NoData browser_abc))
          = (durable browser_abc)(''auth_token'' := None)
    \<and> persisted (snd (api_post (answers 401 ()) ''/users'' NoData browser_abc)) = Some (Doc signed_in)
    \<and> useAuthStore (rehydrate (snd (api_post (answers 401 ()) ''/users'' NoData browser_abc)))
          = signed_in"
    by auto
  with browser answer snapshot show ?thesis
    by (simp add: signed_in_def)
qed

subsection \<open>C3: a successful login or signup\<close>

text \<open>
  C3, as the claim states it, fails: a login that succeeds in a browser holding two
  cached queries leaves both in the cache, and \<^verbatim>\<open>clear()\<close> has not been called.
\<close>

theorem login_success_keeps_cache:
  "fst (useLogin (answers 200 (AuthResponse alice ''xyz'')) (LoginCredentials ''a@b.com'' ''pw'')
         browser_fresh) = Inr (AuthResponse alice ''xyz'')
   \<and> queryCache (queryClient (snd (useLogin (answers 200 (AuthResponse alice ''xyz''))
         (LoginCredentials ''a@b.com'' ''pw'') browser_fresh))) [''users''] = Some ''u''
   \<and> queryCache (queryClient (snd (useLogin (answers 200 (AuthResponse alice ''xyz''))
         (LoginCredentials ''a@b.com'' ''pw'') browser_fresh))) [''users'', ''42'', ''posts'']
       = Some ''p''
   \<and> clearCalls (queryClient (snd (useLogin (answers 200 (AuthResponse alice ''xyz''))
         (LoginCredentials ''a@b.com'' ''pw'') browser_fresh))) = 0"
  by (simp add: useLogin_def useMutation_def mutations_retry_def post_data_def api_post_def
      response_fulfilled_def answers_def validateStatus_def setAuth_queryClient
      browser_fresh_def two_queries_def Let_def)

text \<open>
  C3, amended. For every successful login and every successful signup (the server
  answers the request with a 2xx status), the caller gets the body the server
  returned, the operation calls \<open>setAuth\<close> with the identity and the token of that
  body, so that the store holds them with \<open>isAuthenticated = True\<close>, and the
  Server-Data Cache is left as it was.
\<close>

theorem login_signup_success_calls_setAuth:
  "(net (request_interceptor w (api_config w ''/auth/login'' (LoginBody c))) = Answered r
      \<and> validateStatus (status r) \<longrightarrow>
      useLogin net c w =
        (Inr (data r),
         setAuth (response_user (data r)) (response_token (data r))
           (w\<lparr>sent := sent w
              @ [request_interceptor w (api_config w ''/auth/login'' (LoginBody c))]\<rparr>))
      \<and> useAuthStore (snd (useLogin net c w)) =
          \<lparr>user = Some (response_user (data r)), token = Some (response_token (data r)),
           isAuthenticated = True\<rparr>
      \<and> queryClient (snd (useLogin net c w)) = queryClient w)
   \<and> (net (request_interceptor w (api_config w ''/auth/signup'' (SignupBody sd))) = Answered r
      \<and> validateStatus (status r) \<longrightarrow>
      useSignup net sd w =
        (Inr (data r),
         setAuth (response_user (data r)) (response_token (data r))
           (w\<lparr>sent := sent w
              @ [request_interceptor w (api_config w ''/auth/signup'' (SignupBody sd))]\<rparr>))
      \<and> useAuthStore (snd (useSignup net sd w)) =
          \<lparr>user = Some (response_user (data r)), token = Some (response_token (data r)),
           isAuthenticated = True\<rparr>
      \<and> queryClient (snd (useSignup net sd w)) = queryClient w)"
proof (intro conjI impI)
  assume ok: "net (request_interceptor w (api_config w ''/auth/login'' (LoginBody c))) = Answered r
      \<and> validateStatus (status r)"
  then show login: "useLogin net c w =
        (Inr (data r),
         setAuth (response_user (data r)) (response_token (data r))
           (w\<lparr>sent := sent w
              @ [request_interceptor w (api_config w ''/auth/login'' (LoginBody c))]\<rparr>))"
    using post_data_fulfilled [where net = net and w = w and r = r
        and path = "''/auth/login''" and b = "LoginBody c"]
    by (simp add: useLogin_def useMutation_def mutations_retry_def)
  show "useAuthStore (snd (useLogin net c w)) =
          \<lparr>user = Some (response_user (data r)), token = Some (response_token (data r)),
           isAuthenticated = True\<rparr>"
    by (simp add: login setAuth_store)
  show "queryClient (snd (useLogin net c w)) = queryClient w"
    by (simp add: login setAuth_queryClient)
next
  assume ok: "net (request_interceptor w (api_config w ''/auth/signup'' (SignupBody sd))) = Answered r
      \<and> validateStatus (status r)"
  then show signup: "useSignup net sd w =
        (Inr (data r),
         setAuth (response_user (data r)) (response_token (data r))
           (w\<lparr>sent := sent w
              @ [request_interceptor w (api_config w ''/auth/signup'' (SignupBody sd))]\<rparr>))"
    using post_data_fulfilled [where net = net and w = w and r = r
        and path = "''/auth/signup''" and b = "SignupBody sd"]
    by (simp add: useSignup_def useMutation_def mutations_retry_def)
  show "useAuthStore (snd (useSignup net sd w)) =
          \<lparr>user = Some (response_user (data r)), token = Some (response_token (data r)),
           isAuthenticated = True\<rparr>"
    by (simp add: signup setAuth_store)
  show "queryClient (snd (useSignup net sd w)) = queryClient w"
    by (simp add: signup setAuth_queryClient)
qed

theorem login_signup_success_calls_setAuth_witness:
  "answers 200 (AuthResponse alice ''xyz'')
       (request_interceptor browser_fresh
          (api_config browser_fresh ''/auth/login'' (LoginBody (LoginCredentials ''a@b.com'' ''pw''))))
     = Answered \<lparr>status = 200, data = AuthResponse alice ''xyz''\<rparr>
   \<and> validateStatus 200
   \<and> useAuthStore (snd (useLogin (answers 200 (AuthResponse alice ''xyz''))
         (LoginCredentials ''a@b.com'' ''pw'') browser_fresh))
       = \<lparr>user = Some alice, token = Some ''xyz'', isAuthenticated = True\<rparr>
   \<and> stored_token (snd (useLogin (answers 200 (AuthResponse alice ''xyz''))
         (LoginCredentials ''a@b.com'' ''pw'') browser_fresh)) = Some (Text ''xyz'')
   \<and> useAuthStore (snd (useSignup (answers 201 (AuthResponse alice ''xyz''))
         (SignupData ''A'' ''a@b.com'' ''pw'') server_side))
       = \<lparr>user = Some alice, token = Some ''xyz'', isAuthenticated = True\<rparr>"
proof -
  let ?login = "LoginBody (LoginCredentials ''a@b.com'' ''pw'')"
  let ?signup = "SignupBody (SignupData ''A'' ''a@b.com'' ''pw'')"
  have answer: "answers 200 (AuthResponse alice ''xyz'')
       (request_interceptor browser_fresh (api_config browser_fresh ''/auth/login'' ?login))
     = Answered \<lparr>status = 200, data = AuthResponse alice ''xyz''\<rparr>"
    by (simp add: answers_def)
  have answer': "answers 201 (AuthResponse alice ''xyz'')
       (request_interceptor server_side (api_config server_side ''/auth/signup'' ?signup))
     = Answered \<lparr>status = 201, data = AuthResponse alice ''xyz''\<rparr>"
    by (simp add: answers_def)
  have valid: "validateStatus 200" "validateStatus 201"
    by (simp_all add: validateStatus_def)
  have browser: "isBrowser w \<Longrightarrow> isBrowser (w\<lparr>sent := xs\<rparr>)" for w xs
    by (simp add: isBrowser_def)
  have fresh: "isBrowser browser_fresh"
    by (simp add: isBrowser_def browser_fresh_def)
  from answer valid
    login_signup_success_calls_setAuth [where net = "answers 200 (AuthResponse alice ''xyz'')"
      and w = browser_fresh and c = "LoginCredentials ''a@b.com'' ''pw''"
      and r = "\<lparr>status = 200, data = AuthResponse alice ''xyz''\<rparr>"]
  have 1: "useLogin (answers 200 (AuthResponse alice ''xyz'')) (LoginCredentials ''a@b.com'' ''pw'')
        browser_fresh =
        (Inr (AuthResponse alice ''xyz''),
         setAuth alice ''xyz''
           (browser_fresh\<lparr>sent := sent browser_fresh
              @ [request_interceptor browser_fresh
                   (api_config browser_fresh ''/auth/login'' ?login)]\<rparr>))"
    by auto
  from answer' valid
    login_signup_success_calls_setAuth [where net = "answers 201 (AuthResponse alice ''xyz'')"
      and w = server_side and sd = "SignupData ''A'' ''a@b.com'' ''pw''"
      and r = "\<lparr>status = 201, data = AuthResponse alice ''xyz''\<rparr>"]
  have 2: "useAuthStore (snd (useSignup (answers 201 (AuthResponse alice ''xyz''))
         (SignupData ''A'' ''a@b.com'' ''pw'') server_side))
       = \<lparr>user = Some alice, token = Some ''xyz'', isAuthenticated = True\<rparr>"
    by (auto simp add: setAuth_store)
  from answer valid(1) 2 show ?thesis
    by (simp add: 1 setAuth_store setAuth_stored_token browser fresh)
qed

subsection \<open>C4: how often the cache is cleared\<close>

text \<open>
  C4, as the claim states it, fails: a request answered with 401 in a browser is
  rejected by the gateway, and afterwards \<^verbatim>\<open>clear()\<close> has been called as often as
  before (never) and the cached queries are still there.
\<close>

theorem forced_logout_keeps_cache:
  "isBrowser browser_abc
   \<and> fst (api_post (answers 401 ()) ''/users'' NoData browser_abc)
       = Inl (StatusError \<lparr>status = 401, data = ()\<rparr>)
   \<and> clearCalls (queryClient browser_abc) = 0
   \<and> clearCalls (queryClient (snd (api_post (answers 401 ()) ''/users'' NoData browser_abc))) = 0
   \<and> queryCache (queryClient (snd (api_post (answers 401 ()) ''/users'' NoData browser_abc)))
        [''users''] = Some ''u''"
  by (simp add: api_post_def response_rejected_def answers_def validateStatus_def isBrowser_def
      browser_abc_def two_queries_def Let_def)

text \<open>
  C4, amended. \<^verbatim>\<open>clear()\<close> removes all entries unconditionally, and it is invoked
  exactly once per execution of the logout operation, whether the logout request
  succeeded or failed (the network \<open>net\<close> is arbitrary), leaving the cache empty. A
  call of the gateway leaves the query client as it was, whatever the answer, a 401
  included: the forced logout itself does not invoke \<^verbatim>\<open>clear()\<close>.
\<close>

theorem clear_once_per_logout:
  "queryCache (clear q) = Map.empty
   \<and> clearCalls (clear q) = Suc (clearCalls q)
   \<and> clearCalls (queryClient (snd (useLogout net () w))) = Suc (clearCalls (queryClient w))
   \<and> queryCache (queryClient (snd (useLogout net () w))) = Map.empty
   \<and> queryClient (snd (api_post net' path b w)) = queryClient w"
  using api_post_frame [of net "''/auth/logout''" NoData w] api_post_frame [of net' path b w]
  by (simp add: useLogout_world clear_local_state_def clear_def logout_queryClient Let_def)

subsection \<open>C5: logout ends the session locally, whatever the network says\<close>

text \<open>
  C5. For every execution of the logout operation, over any network: the caller gets
  the request's outcome (fulfilled, or the request's error), and in both cases the
  world left is the one \<open>logout()\<close> and \<^verbatim>\<open>queryClient.clear()\<close> leave after the
  request. So the store is all-absent and unauthenticated, the token key is absent
  from durable storage, the persisted snapshot (in a browser) is the unauthenticated
  one, and the cache is empty.
\<close>

theorem logout_operation_ends_session:
  "snd (useLogout net () w) = clear_local_state (snd (api_post net ''/auth/logout'' NoData w))
   \<and> fst (useLogout net () w)
       = (case settle (net (request_interceptor w (api_config w ''/auth/logout'' NoData))) of
            Inl e \<Rightarrow> Inl e | Inr r \<Rightarrow> Inr ())
   \<and> useAuthStore (snd (useLogout net () w))
       = \<lparr>user = None, token = None, isAuthenticated = False\<rparr>
   \<and> stored_token (snd (useLogout net () w)) = None
   \<and> persisted (snd (useLogout net () w))
       = (if isBrowser w
          then Some (Doc \<lparr>user = None, token = None, isAuthenticated = False\<rparr>) else None)
   \<and> queryCache (queryClient (snd (useLogout net () w))) = Map.empty"
proof -
  let ?w1 = "snd (api_post net ''/auth/logout'' NoData w)"
  have browser: "isBrowser ?w1 = isBrowser w"
    by (simp add: api_post_def response_rejected_def isBrowser_def Let_def
        split: sum.split option.split)
  have observe: "stored_token (x\<lparr>queryClient := q\<rparr>) = stored_token x"
    "persisted (x\<lparr>queryClient := q\<rparr>) = persisted x" for x q
    by (simp_all add: stored_token_def persisted_def)
  show ?thesis
    by (simp add: useLogout_world useLogout_result clear_local_state_def Let_def observe
        logout_store logout_stored_token logout_persisted browser clear_def)
qed

subsection \<open>C9: a failed login or signup\<close>

text \<open>
  C9. For every failed login or signup request (no response, or a response whose
  status is not 2xx), the caller gets the request's own error, the store is as it
  was before the operation (and so is its persisted snapshot), and the network has
  received exactly one request: nothing was retried.
\<close>

theorem failed_login_signup_leaves_session:
  "(settle (net (request_interceptor w (api_config w ''/auth/login'' (LoginBody c)))) = Inl e
      \<longrightarrow>
      fst (useLogin net c w) = Inl e
      \<and> useAuthStore (snd (useLogin net c w)) = useAuthStore w
      \<and> persisted (snd (useLogin net c w)) = persisted w
      \<and> sent (snd (useLogin net c w))
          = sent w @ [request_interceptor w (api_config w ''/auth/login'' (LoginBody c))])
   \<and> (settle (net (request_interceptor w (api_config w ''/auth/signup'' (SignupBody sd)))) = Inl e
      \<longrightarrow>
      fst (useSignup net sd w) = Inl e
      \<and> useAuthStore (snd (useSignup net sd w)) = useAuthStore w
      \<and> persisted (snd (useSignup net sd w)) = persisted w
      \<and> sent (snd (useSignup net sd w))
          = sent w @ [request_interceptor w (api_config w ''/auth/signup'' (SignupBody sd))])"
proof (intro conjI impI)
  assume "settle (net (request_interceptor w (api_config w ''/auth/login'' (LoginBody c)))) = Inl e"
  from post_data_rejected [where net = net and w = w and e = e
      and path = "''/auth/login''" and b = "LoginBody c", OF this]
  show "fst (useLogin net c w) = Inl e"
    and "useAuthStore (snd (useLogin net c w)) = useAuthStore w"
    and "persisted (snd (useLogin net c w)) = persisted w"
    and "sent (snd (useLogin net c w))
          = sent w @ [request_interceptor w (api_config w ''/auth/login'' (LoginBody c))]"
    by (auto simp add: useLogin_def useMutation_def mutations_retry_def split: prod.split sum.split)
next
  assume "settle (net (request_interceptor w (api_config w ''/auth/signup'' (SignupBody sd)))) = Inl e"
  from post_data_rejected [where net = net and w = w and e = e
      and path = "''/auth/signup''" and b = "SignupBody sd", OF this]
  show "fst (useSignup net sd w) = Inl e"
    and "useAuthStore (snd (useSignup net sd w)) = useAuthStore w"
    and "persisted (snd (useSignup net sd w)) = persisted w"
    and "sent (snd (useSignup net sd w))
          = sent w @ [request_interceptor w (api_config w ''/auth/signup'' (SignupBody sd))]"
    by (auto simp add: useSignup_def useMutation_def mutations_retry_def split: prod.split sum.split)
qed

theorem failed_login_signup_leaves_session_witness:
  "settle (answers 401 (AuthResponse alice ''xyz'')
       (request_interceptor browser_abc
          (api_config browser_abc ''/auth/login'' (LoginBody (LoginCredentials ''a@b.com'' ''no'')))))
     = Inl (StatusError \<lparr>status = 401, data = AuthResponse alice ''xyz''\<rparr>)
   \<and> fst (useLogin (answers 401 (AuthResponse alice ''xyz'')) (LoginCredentials ''a@b.com'' ''no'')
        browser_abc) = Inl (StatusError \<lparr>status = 401, data = AuthResponse alice ''xyz''\<rparr>)
   \<and> useAuthStore (snd (useLogin (answers 401 (AuthResponse alice ''xyz''))
        (LoginCredentials ''a@b.com'' ''no'') browser_abc)) = signed_in
   \<and> length (sent (snd (useLogin (answers 401 (AuthResponse alice ''xyz''))
        (LoginCredentials ''a@b.com'' ''no'') browser_abc))) = 1
   \<and> settle (offline
       (request_interceptor server_side
          (api_config server_side ''/auth/signup'' (SignupBody (SignupData ''A'' ''a@b.com'' ''pw'')))))
     = (Inl (NetworkError ''Network Error'') :: AuthResponse AxiosError + AuthResponse Response)
   \<and> fst (useSignup offline (SignupData ''A'' ''a@b.com'' ''pw'') server_side)
       = Inl (NetworkError ''Network Error'')
   \<and> useAuthStore (snd (useSignup offline (SignupData ''A'' ''a@b.com'' ''pw'') server_side))
       = initialState"
proof -
  let ?login = "LoginBody (LoginCredentials ''a@b.com'' ''no'')"
  let ?signup = "SignupBody (SignupData ''A'' ''a@b.com'' ''pw'')"
  let ?e = "StatusError \<lparr>status = 401, data = AuthResponse alice ''xyz''\<rparr>"
  have refused: "settle (answers 401 (AuthResponse alice ''xyz'')
       (request_interceptor browser_abc (api_config browser_abc ''/auth/login'' ?login))) = Inl ?e"
    by (simp add: answers_def validateStatus_def)
  have unreachable: "settle (offline
       (request_interceptor server_side (api_config server_side ''/auth/signup'' ?signup)))
     = (Inl (NetworkError ''Network Error'') :: AuthResponse AxiosError + AuthResponse Response)"
    by (simp add: offline_def)
  have stores: "useAuthStore browser_abc = signed_in" "sent browser_abc = []"
    "useAuthStore server_side = initialState"
    by (simp_all add: browser_abc_def server_side_def)
  from refused
    failed_login_signup_leaves_session [where net = "answers 401 (AuthResponse alice ''xyz'')"
      and w = browser_abc and c = "LoginCredentials ''a@b.com'' ''no''" and e = ?e]
  have 1: "fst (useLogin (answers 401 (AuthResponse alice ''xyz'')) (LoginCredentials ''a@b.com'' ''no'')
        browser_abc) = Inl ?e
    \<and> useAuthStore (snd (useLogin (answers 401 (AuthResponse alice ''xyz''))
        (LoginCredentials ''a@b.com'' ''no'') browser_abc)) = signed_in
    \<and> length (sent (snd (useLogin (answers 401 (AuthResponse alice ''xyz''))
        (LoginCredentials ''a@b.com'' ''no'') browser_abc))) = 1"
    by (auto simp add: stores)
  from unreachable
    failed_login_signup_leaves_session [where net = offline
      and w = server_side and sd = "SignupData ''A'' ''a@b.com'' ''pw''"
      and e = "NetworkError ''Network Error''"]
  have 2: "fst (useSignup offline (SignupData ''A'' ''a@b.com'' ''pw'') server_side)
       = Inl (NetworkError ''Network Error'')
    \<and> useAuthStore (snd (useSignup offline (SignupData ''A'' ''a@b.com'' ''pw'') server_side))
       = initialState"
    by (auto simp add: stores)
  from refused unreachable 1 2 show ?thesis by blast
qed

end
